theory Spec2Isabelle
  imports Main
begin

section \<open>Symptom interview agent: a shallow embedding of app.py\<close>

text \<open>
  The program is a Flask application with one global dictionary, \<open>interview_context\<close>,
  three request handlers that read and update it, and two helpers that call a hosted
  language model through a crew (\<open>Crew.kickoff\<close>) and, for the report, parse the answer
  with \<open>json.loads\<close>.

  The handlers are modelled as functions from the global dictionary to a response and the
  updated dictionary. The language model and the JSON parser are not part of the program:
  they are parameters of the model, functions that either raise or return, so that every
  theorem holds for every behaviour of the two. What \<open>request.get_json()\<close> gives is a
  parameter of each handler in the same way. Output on the console (\<open>print\<close>) is left out.
  Requests are handled one after the other.
\<close>

subsection \<open>Python values\<close>

text \<open>
  A string is a list of characters, each read as a code point below 256. Exceptions are
  values: the two the program can raise by itself, and one constructor for whatever an
  external call raises, carrying its \<open>str(e)\<close>.
\<close>

datatype json =
    JNull
  | JBool bool
  | JInt int
  | JFloat string
  | JStr string
  | JArr "json list"
  | JObj "(string \<times> json) list"

datatype pyexn =
    IndexError
  | AttributeError string string
  | ExternalError string

fun type_name :: "json \<Rightarrow> string" where
  "type_name JNull = ''NoneType''"
| "type_name (JBool _) = ''bool''"
| "type_name (JInt _) = ''int''"
| "type_name (JFloat _) = ''float''"
| "type_name (JStr _) = ''str''"
| "type_name (JArr _) = ''list''"
| "type_name (JObj _) = ''dict''"

fun exn_str :: "pyexn \<Rightarrow> string" where
  "exn_str IndexError = ''list index out of range''"
| "exn_str (AttributeError ty attr) =
     [CHR 0x27] @ ty @ [CHR 0x27] @ '' object has no attribute '' @ [CHR 0x27] @ attr
     @ [CHR 0x27]"
| "exn_str (ExternalError msg) = msg"

text \<open>\<open>str.strip()\<close> removes the white space of Python at both ends.\<close>

definition py_isspace :: "char \<Rightarrow> bool" where
  "py_isspace c =
     (let n = (of_char c :: nat)
      in (9 \<le> n \<and> n \<le> 13) \<or> (28 \<le> n \<and> n \<le> 32) \<or> n = 133 \<or> n = 160)"

definition py_strip :: "string \<Rightarrow> string" where
  "py_strip s = rev (dropWhile py_isspace (rev (dropWhile py_isspace s)))"

definition py_startswith :: "string \<Rightarrow> string \<Rightarrow> bool" where
  "py_startswith s p = (take (length p) s = p)"

definition py_endswith :: "string \<Rightarrow> string \<Rightarrow> bool" where
  "py_endswith s p = (length p \<le> length s \<and> drop (length s - length p) s = p)"

text \<open>\<open>s.split(c, 1)\<close> and \<open>s.rsplit(c, 1)\<close>: at most one cut, at the first or the last \<open>c\<close>.\<close>

definition py_split1 :: "string \<Rightarrow> char \<Rightarrow> string list" where
  "py_split1 s c =
     (case dropWhile (\<lambda>x. x \<noteq> c) s of
        [] \<Rightarrow> [s]
      | _ # after \<Rightarrow> [takeWhile (\<lambda>x. x \<noteq> c) s, after])"

definition py_rsplit1 :: "string \<Rightarrow> char \<Rightarrow> string list" where
  "py_rsplit1 s c =
     (case dropWhile (\<lambda>x. x \<noteq> c) (rev s) of
        [] \<Rightarrow> [s]
      | _ # before \<Rightarrow> [rev before, rev (takeWhile (\<lambda>x. x \<noteq> c) (rev s))])"

definition py_index :: "'a list \<Rightarrow> nat \<Rightarrow> pyexn + 'a" where
  "py_index xs i = (if i < length xs then Inr (xs ! i) else Inl IndexError)"

fun py_join :: "string \<Rightarrow> string list \<Rightarrow> string" where
  "py_join sep [] = []"
| "py_join sep [x] = x"
| "py_join sep (x # y # ys) = x @ sep @ py_join sep (y # ys)"

text \<open>\<open>data.get(key, default)\<close> and \<open>value.strip()\<close> on what a JSON body can hold.\<close>

fun dict_get :: "json \<Rightarrow> string \<Rightarrow> json \<Rightarrow> pyexn + json" where
  "dict_get (JObj kvs) key dflt =
     (case map_of kvs key of Some v \<Rightarrow> Inr v | None \<Rightarrow> Inr dflt)"
| "dict_get data key dflt = Inl (AttributeError (type_name data) ''get'')"

fun strip_method :: "json \<Rightarrow> pyexn + string" where
  "strip_method (JStr s) = Inr (py_strip s)"
| "strip_method v = Inl (AttributeError (type_name v) ''strip'')"

subsection \<open>The global state\<close>

datatype role = User | Agent | System

fun role_str :: "role \<Rightarrow> string" where
  "role_str User = ''User''"
| "role_str Agent = ''Agent''"
| "role_str System = ''System''"

record turn =
  role :: role
  "text" :: string

record session =
  interview_id :: int
  conversation_history :: "turn list"
  is_complete :: bool
  initial_symptom :: "string option"

definition interview_context :: session where
  "interview_context =
     \<lparr>interview_id = 1, conversation_history = [], is_complete = False,
      initial_symptom = None\<rparr>"

text \<open>A crew is one agent with one task; \<open>kickoff\<close> sends the task's description to the model.\<close>

datatype agent = interviewer_agent | report_agent

type_synonym kickoff = "agent \<Rightarrow> string \<Rightarrow> pyexn + string"

type_synonym json_loads = "string \<Rightarrow> pyexn + json"

definition format_turn :: "turn \<Rightarrow> string" where
  "format_turn item = role_str (role item) @ '': '' @ text item"

definition format_history :: "turn list \<Rightarrow> string" where
  "format_history history = py_join ''\<newline>'' (map format_turn history)"

definition fmt :: "string option \<Rightarrow> string" where
  "fmt v = (case v of None \<Rightarrow> ''None'' | Some s \<Rightarrow> s)"

definition user_turns :: "turn list \<Rightarrow> nat" where
  "user_turns history = length (filter (\<lambda>item. role item = User) history)"

subsection \<open>get\_next\_question\<close>

definition interview_steps :: "string list" where
  "interview_steps =
     [''What is the exact location, quality (e.g., sharp, dull), and severity (on a scale of 1-10) of the symptom?'',
      ''When did this symptom first start, and how has it changed over time (e.g., constant, intermittent)?'',
      ''What makes the symptom better, and what makes it worse?'',
      ''Are you experiencing any other related symptoms, even minor ones?'']"

definition closing_question :: string where
  "closing_question =
     ''Is there anything else you think is important for a doctor to know about this symptom or your overall health right now?''"

definition apology :: string where
  "apology =
     ''I apologize, an error occurred. Can you please summarize your symptoms one more time?''"

definition question_description :: "string option \<Rightarrow> string \<Rightarrow> string \<Rightarrow> string" where
  "question_description symptom next_q formatted_history =
     ''\<newline>        Based on the history and the initial symptom ('' @ [CHR 0x27]
     @ fmt symptom @ [CHR 0x27]
     @ ''), generate the next single, best follow-up question.\<newline>''
     @ ''        The question MUST be one of the core elements of a standard medical interview (HPI - History of Present Illness) to gather necessary details for the report.\<newline>''
     @ ''        \<newline>''
     @ ''        The next specific topic to cover is: '' @ [CHR 0x27] @ next_q @ [CHR 0x27]
     @ ''.\<newline>''
     @ ''        \<newline>''
     @ ''        Current Conversation History:\<newline>''
     @ ''        ---\<newline>''
     @ ''        '' @ formatted_history @ ''\<newline>''
     @ ''        ---\<newline>''
     @ ''        \<newline>''
     @ ''        Generate ONLY the single question text. Do NOT include a diagnosis or medical advice.\<newline>''
     @ ''        ''"

text \<open>
  The \<open>try\<close> block at the end of \<open>get_next_question\<close>: the crew's answer, trimmed, or the
  apology when the call raises.
\<close>

definition ask_interviewer :: "kickoff \<Rightarrow> string option \<Rightarrow> string \<Rightarrow> string \<Rightarrow> pyexn + string" where
  "ask_interviewer kickoff symptom next_q formatted_history =
     (case kickoff interviewer_agent
             (question_description symptom next_q formatted_history) of
        Inr question_result \<Rightarrow> Inr (py_strip question_result)
      | Inl e \<Rightarrow> Inr apology)"

definition get_next_question :: "kickoff \<Rightarrow> turn list \<Rightarrow> string option \<Rightarrow> pyexn + string" where
  "get_next_question kickoff history symptom =
     (let formatted_history = format_history history;
          current_step = user_turns history
      in if current_step = 0 then
           ask_interviewer kickoff symptom (interview_steps ! 0) formatted_history
         else if current_step \<le> length interview_steps then
           ask_interviewer kickoff symptom (interview_steps ! (current_step - 1))
             formatted_history
         else Inr closing_question)"

subsection \<open>generate\_report\<close>

definition report_description :: "string \<Rightarrow> string" where
  "report_description full_history =
     ''\<newline>''
     @ ''        Generate a structured, non-diagnostic symptom report based on the following conversation history.\<newline>''
     @ ''        The report must follow this exact JSON format. Only include information explicitly mentioned in the history.\<newline>''
     @ ''        \<newline>''
     @ ''        Conversation History:\<newline>''
     @ ''        ---\<newline>''
     @ ''        '' @ full_history @ ''\<newline>''
     @ ''        ---\<newline>''
     @ ''        \<newline>''
     @ ''        Return ONLY the valid JSON structure without any other text or markdown:\<newline>''
     @ ''        {\<newline>''
     @ ''            \"report_title\": \"Symptom Interview Report for [Initial Symptom]\",\<newline>''
     @ ''            \"safety_disclaimer\": \"This is a non-diagnostic, AI-generated intake report and is not a substitute for professional medical evaluation.\",\<newline>''
     @ ''            \"sections\": [\<newline>''
     @ ''                {\<newline>''
     @ ''                    \"heading\": \"Chief Complaint\",\<newline>''
     @ ''                    \"content\": \"Patient reports: [Initial Symptom]\"\<newline>''
     @ ''                },\<newline>''
     @ ''                {\<newline>''
     @ ''                    \"heading\": \"History of Present Illness (HPI)\",\<newline>''
     @ ''                    \"content\": \"Organize the patient's answers into a clear narrative covering: Onset, Location/Quality, Severity, Duration, Modifying Factors (what makes it better/worse), and Associated Symptoms.\"\<newline>''
     @ ''                },\<newline>''
     @ ''                {\<newline>''
     @ ''                    \"heading\": \"Review of Systems (ROS)\",\<newline>''
     @ ''                    \"content\": \"List any other systems/symptoms mentioned by the patient.\"\<newline>''
     @ ''                }\<newline>''
     @ ''            ]\<newline>''
     @ ''        }\<newline>''
     @ ''        ''"

text \<open>
  The clean-up of the crew's answer: trimmed, and when it starts and ends with three
  backticks, cut after the first line feed and before the last one of what is left.
  The index \<open>[1]\<close> raises when the answer has no line feed.
\<close>

definition clean_report_text :: "string \<Rightarrow> pyexn + string" where
  "clean_report_text report_result =
     (let report_text = py_strip report_result
      in if py_startswith report_text ''```'' \<and> py_endswith report_text ''```'' then
           (case py_index (py_split1 report_text CHR 0x0A) 1 of
              Inl e \<Rightarrow> Inl e
            | Inr rest \<Rightarrow>
                (case py_index (py_rsplit1 rest CHR 0x0A) 0 of
                   Inl e \<Rightarrow> Inl e
                 | Inr inner \<Rightarrow> Inr (py_strip inner)))
         else Inr report_text)"

text \<open>The body of the \<open>try\<close> block of \<open>generate_report\<close>.\<close>

definition report_try :: "kickoff \<Rightarrow> json_loads \<Rightarrow> string \<Rightarrow> pyexn + json" where
  "report_try kickoff json_loads full_history =
     (case kickoff report_agent (report_description full_history) of
        Inl e \<Rightarrow> Inl e
      | Inr report_result \<Rightarrow>
          (case clean_report_text report_result of
             Inl e \<Rightarrow> Inl e
           | Inr report_text \<Rightarrow> json_loads report_text))"

definition report_error :: "pyexn \<Rightarrow> json" where
  "report_error e =
     JObj [(''error'', JStr (''Failed to generate structured report: '' @ exn_str e))]"

definition generate_report :: "kickoff \<Rightarrow> json_loads \<Rightarrow> session \<Rightarrow> pyexn + json" where
  "generate_report kickoff json_loads context =
     (let full_history = format_history (conversation_history context)
      in case report_try kickoff json_loads full_history of
           Inr report \<Rightarrow> Inr report
         | Inl e \<Rightarrow> Inr (report_error e))"

subsection \<open>The request handlers\<close>

record response =
  status :: nat
  body :: json

definition jsonify_error :: "string \<Rightarrow> nat \<Rightarrow> response" where
  "jsonify_error msg code = \<lparr>status = code, body = JObj [(''error'', JStr msg)]\<rparr>"

definition turn_json :: "turn \<Rightarrow> json" where
  "turn_json item = JObj [(''role'', JStr (role_str (role item))), (''text'', JStr (text item))]"

definition history_json :: "session \<Rightarrow> json" where
  "history_json context = JArr (map turn_json (conversation_history context))"

definition append_turn :: "session \<Rightarrow> role \<Rightarrow> string \<Rightarrow> session" where
  "append_turn context r t =
     context\<lparr>conversation_history :=
       conversation_history context @ [\<lparr>role = r, text = t\<rparr>]\<rparr>"

definition opening_question :: "string \<Rightarrow> string" where
  "opening_question symptom =
     ''Thank you for sharing your symptom: '' @ [CHR 0x27] @ symptom @ [CHR 0x27]
     @ ''. To begin, can you tell me when you first noticed this symptom?''"

text \<open>
  Each handler with a \<open>try\<close> block is the block's body, which gives the state it has reached
  with either a response or the exception raised, and the \<open>except\<close> clause around it.
\<close>

definition start_interview_try :: "pyexn + json \<Rightarrow> session \<Rightarrow> (pyexn + response) \<times> session" where
  "start_interview_try request_json context =
     (case request_json of
        Inl e \<Rightarrow> (Inl e, context)
      | Inr data \<Rightarrow>
     (case dict_get data ''initial_symptom'' (JStr []) of
        Inl e \<Rightarrow> (Inl e, context)
      | Inr v \<Rightarrow>
     (case strip_method v of
        Inl e \<Rightarrow> (Inl e, context)
      | Inr symptom \<Rightarrow>
          if symptom = [] then
            (Inr (jsonify_error ''Please provide an initial symptom to start the interview.'' 400),
             context)
          else
            let context1 =
                  \<lparr>interview_id = interview_id context + 1,
                   conversation_history = [\<lparr>role = User, text = symptom\<rparr>],
                   is_complete = False,
                   initial_symptom = Some symptom\<rparr>;
                initial_question = opening_question symptom;
                context2 = append_turn context1 Agent initial_question
            in (Inr \<lparr>status = 200,
                     body = JObj [(''interview_id'', JInt (interview_id context2)),
                                  (''initial_question'', JStr initial_question),
                                  (''history'', history_json context2)]\<rparr>,
                context2))))"

definition start_interview :: "pyexn + json \<Rightarrow> session \<Rightarrow> response \<times> session" where
  "start_interview request_json context =
     (case start_interview_try request_json context of
        (Inr resp, context') \<Rightarrow> (resp, context')
      | (Inl e, context') \<Rightarrow>
          (jsonify_error (''An unexpected error occurred: '' @ exn_str e) 500, context'))"

definition system_message :: string where
  "system_message =
     ''The interview is complete. Thank you for your patience. I have generated a structured report for review. Please find the JSON report below.''"

definition continue_interview_try ::
    "kickoff \<Rightarrow> json_loads \<Rightarrow> pyexn + json \<Rightarrow> session \<Rightarrow> (pyexn + response) \<times> session" where
  "continue_interview_try kickoff json_loads request_json context =
     (if is_complete context then
        (Inr (jsonify_error ''Interview is already complete. Please start a new one.'' 400),
         context)
      else
     (case request_json of
        Inl e \<Rightarrow> (Inl e, context)
      | Inr data \<Rightarrow>
     (case dict_get data ''user_response'' (JStr []) of
        Inl e \<Rightarrow> (Inl e, context)
      | Inr v \<Rightarrow>
     (case strip_method v of
        Inl e \<Rightarrow> (Inl e, context)
      | Inr user_response \<Rightarrow>
          if user_response = [] then
            (Inr (jsonify_error ''Please provide a response to continue.'' 400), context)
          else
            let context1 = append_turn context User user_response;
                user_turn_count = user_turns (conversation_history context1)
            in if user_turn_count \<ge> 5 then
                 let context2 = context1\<lparr>is_complete := True\<rparr>
                 in (case generate_report kickoff json_loads context2 of
                       Inl e \<Rightarrow> (Inl e, context2)
                     | Inr report \<Rightarrow>
                         let context3 = append_turn context2 System system_message
                         in (Inr \<lparr>status = 200,
                                  body = JObj [(''interview_id'', JInt (interview_id context3)),
                                               (''next_question'', JNull),
                                               (''is_complete'', JBool True),
                                               (''structured_report'', report),
                                               (''history'', history_json context3)]\<rparr>,
                             context3))
               else
                 (case get_next_question kickoff (conversation_history context1)
                         (initial_symptom context1) of
                    Inl e \<Rightarrow> (Inl e, context1)
                  | Inr next_question \<Rightarrow>
                      let context2 = append_turn context1 Agent next_question
                      in (Inr \<lparr>status = 200,
                               body = JObj [(''interview_id'', JInt (interview_id context2)),
                                            (''next_question'', JStr next_question),
                                            (''is_complete'', JBool False),
                                            (''history'', history_json context2)]\<rparr>,
                          context2))))))"

definition continue_interview ::
    "kickoff \<Rightarrow> json_loads \<Rightarrow> pyexn + json \<Rightarrow> session \<Rightarrow> response \<times> session" where
  "continue_interview kickoff json_loads request_json context =
     (case continue_interview_try kickoff json_loads request_json context of
        (Inr resp, context') \<Rightarrow> (resp, context')
      | (Inl e, context') \<Rightarrow>
          (jsonify_error
             (''An unexpected error occurred during the interview process: '' @ exn_str e) 500,
           context'\<lparr>is_complete := True\<rparr>))"

text \<open>
  \<open>get_report\<close> has no \<open>try\<close> block: an exception of \<open>generate_report\<close> would leave the
  handler.
\<close>

definition get_report :: "kickoff \<Rightarrow> json_loads \<Rightarrow> session \<Rightarrow> (pyexn + response) \<times> session" where
  "get_report kickoff json_loads context =
     (if \<not> is_complete context then
        (Inr (jsonify_error ''Interview is not yet complete. Cannot generate report.'' 400),
         context)
      else
        (case generate_report kickoff json_loads context of
           Inl e \<Rightarrow> (Inl e, context)
         | Inr report \<Rightarrow> (Inr \<lparr>status = 200, body = report\<rparr>, context)))"

subsection \<open>Reading requests and responses\<close>

text \<open>
  Two readers used to state the properties: a key of a JSON object, and the trimmed text a
  handler gets from a body that is an object whose field is a string or is absent (the
  default of \<open>data.get\<close> is the empty string).
\<close>

definition json_field :: "json \<Rightarrow> string \<Rightarrow> json option" where
  "json_field v key = (case v of JObj kvs \<Rightarrow> map_of kvs key | _ \<Rightarrow> None)"

definition field_text :: "pyexn + json \<Rightarrow> string \<Rightarrow> string option" where
  "field_text request_json key =
     (case request_json of
        Inr (JObj kvs) \<Rightarrow>
          (case map_of kvs key of
             None \<Rightarrow> Some []
           | Some (JStr s) \<Rightarrow> Some (py_strip s)
           | Some _ \<Rightarrow> None)
      | _ \<Rightarrow> None)"

subsection \<open>Requests in sequence\<close>

text \<open>
  The three routes, and a process that serves a list of requests one after the other from
  a given state. A handler's exception that nothing catches is the outcome of the request.
\<close>

datatype request =
    StartInterview "pyexn + json"
  | ContinueInterview kickoff json_loads "pyexn + json"
  | GetReport kickoff json_loads

fun handle :: "request \<Rightarrow> session \<Rightarrow> (pyexn + response) \<times> session" where
  "handle (StartInterview request_json) context =
     (let (resp, context') = start_interview request_json context in (Inr resp, context'))"
| "handle (ContinueInterview kickoff json_loads request_json) context =
     (let (resp, context') = continue_interview kickoff json_loads request_json context
      in (Inr resp, context'))"
| "handle (GetReport kickoff json_loads) context = get_report kickoff json_loads context"

fun serve :: "request list \<Rightarrow> session \<Rightarrow> (pyexn + response) list \<times> session" where
  "serve [] context = ([], context)"
| "serve (rq # rqs) context =
     (let (out, context') = handle rq context;
          (outs, context'') = serve rqs context'
      in (out # outs, context''))"

fun started :: "request \<times> (pyexn + response) \<Rightarrow> bool" where
  "started (StartInterview _, Inr resp) = (status resp = 200)"
| "started _ = False"

section \<open>Properties\<close>

subsection \<open>The helpers return\<close>

lemma field_textD:
  assumes "field_text rq key = Some r"
  shows "\<exists>data v. rq = Inr data \<and> dict_get data key (JStr []) = Inr v \<and> strip_method v = Inr r"
  using assms
  by (auto simp: field_text_def py_strip_def split: sum.splits json.splits option.splits)

lemma ask_interviewer_returns: "\<exists>q. ask_interviewer k s t fh = Inr q"
  by (simp add: ask_interviewer_def split: sum.splits)

lemma get_next_question_returns: "\<exists>q. get_next_question k h s = Inr q"
  using ask_interviewer_returns by (simp add: get_next_question_def Let_def)

lemma generate_report_returns: "\<exists>report. generate_report k jl c = Inr report"
  by (simp add: generate_report_def Let_def split: sum.splits)

lemma length_interview_steps: "length interview_steps = 4"
  by (simp add: interview_steps_def)

lemma user_turns_append [simp]:
  "user_turns (h @ [\<lparr>role = r, text = t\<rparr>]) = user_turns h + (if r = User then 1 else 0)"
  by (simp add: user_turns_def)

subsection \<open>The question planner\<close>



text \<open>
  Claim C7. When the planner calls the model, that is with at most four User turns in the
  history, and the call raises, the planner returns the apology: the exception does not
  leave \<open>get_next_question\<close>. The task sent is the one for the selected topic; with no
  User turn \<open>n - 1\<close> is \<open>0\<close>, the index of the first topic. With more than four
  User turns no call is made.
\<close>

theorem get_next_question_model_error:
  assumes "user_turns h \<le> length interview_steps"
    and "k interviewer_agent
           (question_description s (interview_steps ! (user_turns h - 1)) (format_history h))
         = Inl e"
  shows "get_next_question k h s = Inr apology"
  using assms
  by (cases "user_turns h = 0") (simp_all add: get_next_question_def Let_def ask_interviewer_def)

theorem get_next_question_model_error_witness:
  "get_next_question (\<lambda>a p. Inl (ExternalError ''503 UNAVAILABLE''))
     [\<lparr>role = User, text = ''headache''\<rparr>] (Some ''headache'') = Inr apology"
  using get_next_question_model_error
          [of "[\<lparr>role = User, text = ''headache''\<rparr>]"
              "\<lambda>a p. Inl (ExternalError ''503 UNAVAILABLE'')" "Some ''headache''"
              "ExternalError ''503 UNAVAILABLE''"]
  by (simp add: user_turns_def interview_steps_def)

subsection \<open>Starting an interview\<close>

lemma start_interview_try_eq:
  assumes "field_text rq ''initial_symptom'' = Some S"
  shows "start_interview_try rq c =
     (if S = [] then
        (Inr (jsonify_error ''Please provide an initial symptom to start the interview.'' 400), c)
      else
        (Inr \<lparr>status = 200,
              body = JObj [(''interview_id'', JInt (interview_id c + 1)),
                           (''initial_question'', JStr (opening_question S)),
                           (''history'', JArr [turn_json \<lparr>role = User, text = S\<rparr>,
                              turn_json \<lparr>role = Agent, text = opening_question S\<rparr>])]\<rparr>,
         \<lparr>interview_id = interview_id c + 1,
          conversation_history =
            [\<lparr>role = User, text = S\<rparr>, \<lparr>role = Agent, text = opening_question S\<rparr>],
          is_complete = False,
          initial_symptom = Some S\<rparr>))"
proof -
  from field_textD[OF assms] obtain data v where
    "rq = Inr data" "dict_get data ''initial_symptom'' (JStr []) = Inr v" "strip_method v = Inr S"
    by blast
  then show ?thesis
    by (simp add: start_interview_try_def Let_def append_turn_def history_json_def)
qed



subsection \<open>The report synthesizer\<close>

text \<open>
  \<open>generate_report\<close> always returns: the parsed document when the crew answers, the
  clean-up succeeds and the parser accepts the text, and otherwise the error object with
  the cause.
\<close>

lemma generate_report_cases:
  "generate_report k jl c =
     Inr (case k report_agent (report_description (format_history (conversation_history c))) of
            Inl e \<Rightarrow> report_error e
          | Inr report_result \<Rightarrow>
              (case clean_report_text report_result of
                 Inl e \<Rightarrow> report_error e
               | Inr report_text \<Rightarrow>
                   (case jl report_text of Inl e \<Rightarrow> report_error e | Inr report \<Rightarrow> report)))"
  by (simp add: generate_report_def report_try_def Let_def split: sum.splits)

text \<open>
  The clean-up leaves an answer without the fence as it is, trimmed. With the fence and
  at least two line feeds it keeps what is between the first and the last line feed,
  trimmed. With the fence and no line feed the index raises.
\<close>

lemma clean_report_text_plain:
  assumes "\<not> (py_startswith (py_strip t) ''```'' \<and> py_endswith (py_strip t) ''```'')"
  shows "clean_report_text t = Inr (py_strip t)"
  using assms by (auto simp: clean_report_text_def Let_def)

lemma py_split1_cut:
  assumes "c \<notin> set head"
  shows "py_split1 (head @ c # rest) c = [head, rest]"
proof -
  have "dropWhile (\<lambda>x. x \<noteq> c) (head @ c # rest) = c # rest"
    using assms by (auto simp: dropWhile_append3)
  moreover have "takeWhile (\<lambda>x. x \<noteq> c) (head @ c # rest) = head"
    using assms by (auto simp: takeWhile_tail)
  ultimately show ?thesis by (simp add: py_split1_def)
qed

lemma py_rsplit1_cut:
  assumes "c \<notin> set lst"
  shows "py_rsplit1 (inner @ c # lst) c = [inner, lst]"
proof -
  have "dropWhile (\<lambda>x. x \<noteq> c) (rev lst @ c # rev inner) = c # rev inner"
    using assms by (auto simp: dropWhile_append3)
  moreover have "takeWhile (\<lambda>x. x \<noteq> c) (rev lst @ c # rev inner) = rev lst"
    using assms by (auto simp: takeWhile_tail)
  ultimately show ?thesis by (simp add: py_rsplit1_def)
qed

lemma py_split1_whole:
  assumes "c \<notin> set s"
  shows "py_split1 s c = [s]"
proof -
  have "\<forall>x\<in>set s. x \<noteq> c" using assms by auto
  then have "dropWhile (\<lambda>x. x \<noteq> c) s = []" by (simp only: dropWhile_eq_Nil_conv)
  then show ?thesis unfolding py_split1_def by (simp only: list.case)
qed

lemma clean_report_text_fenced:
  assumes "py_strip t = head @ [CHR 0x0A] @ inner @ [CHR 0x0A] @ lst"
    and "CHR 0x0A \<notin> set head" and "CHR 0x0A \<notin> set lst"
    and "py_startswith (py_strip t) ''```''" and "py_endswith (py_strip t) ''```''"
  shows "clean_report_text t = Inr (py_strip inner)"
proof -
  have "py_split1 (py_strip t) CHR 0x0A = [head, inner @ CHR 0x0A # lst]"
    using py_split1_cut[OF assms(2)] assms(1) by simp
  moreover have "py_rsplit1 (inner @ CHR 0x0A # lst) CHR 0x0A = [inner, lst]"
    using py_rsplit1_cut[OF assms(3)] by simp
  ultimately show ?thesis
    using assms(4,5) by (simp add: clean_report_text_def Let_def py_index_def)
qed

lemma clean_report_text_one_line:
  assumes "CHR 0x0A \<notin> set (py_strip t)"
    and "py_startswith (py_strip t) ''```''" and "py_endswith (py_strip t) ''```''"
  shows "clean_report_text t = Inl IndexError"
  using assms py_split1_whole[OF assms(1)]
  by (simp add: clean_report_text_def Let_def py_index_def)

lemma clean_report_text_two_lines:
  "clean_report_text (''```json'' @ [CHR 0x0A] @ ''{}```'') = Inr ''{}```''"
  by (simp add: clean_report_text_def py_strip_def py_isspace_def py_startswith_def
        py_endswith_def py_split1_def py_rsplit1_def py_index_def)

text \<open>
  Claim C8. \<open>generate_report\<close> never raises and gives the error object or the parsed
  document (\<open>generate_report_cases\<close>), and a fenced answer of three lines or more loses its
  first and last line before parsing (\<open>clean_report_text_fenced\<close>). A fenced answer on one
  line is not parsed at all: the clean-up raises \<open>IndexError\<close>, and the report is the error
  object with the cause \<open>list index out of range\<close>, whatever the parser would say.
\<close>

theorem generate_report_fence_on_one_line:
  "generate_report (\<lambda>a p. Inr ''```{}```'') jl c
     = Inr (JObj [(''error'',
             JStr ''Failed to generate structured report: list index out of range'')])"
proof -
  have "clean_report_text ''```{}```'' = Inl IndexError"
    by (rule clean_report_text_one_line)
       (simp_all add: py_strip_def py_isspace_def py_startswith_def py_endswith_def)
  then show ?thesis
    by (simp add: generate_report_cases report_error_def)
qed

text \<open>
  Claim C6, as the code has it. \<open>get_report\<close> answers 400 while \<open>is_complete\<close> is false.
  When it is true the answer is 200 with what \<open>generate_report\<close> gives: the document the
  parser made of the model's answer, of whatever shape, or the error object when the call,
  the clean-up or the parser raised. The state is not changed.
\<close>

theorem get_report_result:
  "get_report k jl c =
     (if \<not> is_complete c then
        (Inr (jsonify_error ''Interview is not yet complete. Cannot generate report.'' 400), c)
      else
        (Inr \<lparr>status = 200,
              body =
                (case report_try k jl (format_history (conversation_history c)) of
                   Inr report \<Rightarrow> report
                 | Inl e \<Rightarrow> report_error e)\<rparr>, c))"
  by (simp add: get_report_def generate_report_def Let_def split: sum.splits)

theorem get_report_result_witness:
  "get_report (\<lambda>a p. Inr ''[1]'') (\<lambda>t. if t = ''[1]'' then Inr (JArr [JInt 1]) else Inr JNull)
     \<lparr>interview_id = 2, conversation_history = [], is_complete = True,
      initial_symptom = Some ''headache''\<rparr>
   = (Inr \<lparr>status = 200, body = JArr [JInt 1]\<rparr>,
      \<lparr>interview_id = 2, conversation_history = [], is_complete = True,
       initial_symptom = Some ''headache''\<rparr>)
   \<and> fst (get_report (\<lambda>a p. Inr ''[1]'') (\<lambda>t. Inr JNull) interview_context)
     = Inr (jsonify_error ''Interview is not yet complete. Cannot generate report.'' 400)"
  using get_report_result
          [of "\<lambda>a p. Inr ''[1]''" "\<lambda>t. if t = ''[1]'' then Inr (JArr [JInt 1]) else Inr JNull"
              "\<lparr>interview_id = 2, conversation_history = [], is_complete = True,
                initial_symptom = Some ''headache''\<rparr>"]
        get_report_result [of "\<lambda>a p. Inr ''[1]''" "\<lambda>t. Inr JNull" interview_context]
  by (simp add: report_try_def clean_report_text_def py_strip_def py_isspace_def
        py_startswith_def py_endswith_def interview_context_def)

text \<open>
  Against claim C6 as stated: in a completed interview, with a model call that raises, the
  answer is 200 with the error object, which has no \<open>sections\<close>.
\<close>

theorem get_report_error_object:
  "get_report (\<lambda>a p. Inl (ExternalError ''503 UNAVAILABLE'')) (\<lambda>t. Inr JNull)
     \<lparr>interview_id = 2,
      conversation_history =
        [\<lparr>role = User, text = ''headache''\<rparr>,
         \<lparr>role = Agent, text = opening_question ''headache''\<rparr>],
      is_complete = True,
      initial_symptom = Some ''headache''\<rparr>
   = (Inr \<lparr>status = 200,
           body = JObj [(''error'',
                         JStr ''Failed to generate structured report: 503 UNAVAILABLE'')]\<rparr>,
      \<lparr>interview_id = 2,
       conversation_history =
         [\<lparr>role = User, text = ''headache''\<rparr>,
          \<lparr>role = Agent, text = opening_question ''headache''\<rparr>],
       is_complete = True,
       initial_symptom = Some ''headache''\<rparr>)
   \<and> json_field
         (JObj [(''error'', JStr ''Failed to generate structured report: 503 UNAVAILABLE'')])
         ''sections'' = None"
  by (simp add: get_report_def generate_report_cases report_error_def json_field_def)

subsection \<open>Continuing an interview\<close>

text \<open>
  Claim C4. In a state whose \<open>is_complete\<close> is true, \<open>continue_interview\<close> answers 400
  and returns the state as it was, whatever the body of the request, the model and the
  parser are.
\<close>

theorem continue_interview_complete:
  "is_complete c \<Longrightarrow>
   continue_interview k jl rq c =
     (jsonify_error ''Interview is already complete. Please start a new one.'' 400, c)"
  by (simp add: continue_interview_def continue_interview_try_def)

theorem continue_interview_complete_witness:
  "continue_interview (\<lambda>a p. Inr ''{}'') (\<lambda>t. Inr (JObj []))
     (Inr (JObj [(''user_response'', JStr ''one more thing'')]))
     \<lparr>interview_id = 2, conversation_history = [], is_complete = True,
      initial_symptom = Some ''headache''\<rparr>
   = (jsonify_error ''Interview is already complete. Please start a new one.'' 400,
      \<lparr>interview_id = 2, conversation_history = [], is_complete = True,
       initial_symptom = Some ''headache''\<rparr>)"
  using continue_interview_complete
          [of "\<lparr>interview_id = 2, conversation_history = [], is_complete = True,
                initial_symptom = Some ''headache''\<rparr>"]
  by simp

lemma continue_interview_try_eq:
  assumes "\<not> is_complete c" and "field_text rq ''user_response'' = Some r"
  shows "continue_interview_try k jl rq c =
     (if r = [] then (Inr (jsonify_error ''Please provide a response to continue.'' 400), c)
      else if 4 \<le> user_turns (conversation_history c) then
        (let c3 = c\<lparr>conversation_history :=
                     conversation_history c
                     @ [\<lparr>role = User, text = r\<rparr>, \<lparr>role = System, text = system_message\<rparr>],
                   is_complete := True\<rparr>
         in (Inr \<lparr>status = 200,
                  body = JObj [(''interview_id'', JInt (interview_id c)),
                               (''next_question'', JNull),
                               (''is_complete'', JBool True),
                               (''structured_report'',
                                projr (generate_report k jl
                                  (c\<lparr>conversation_history :=
                                       conversation_history c @ [\<lparr>role = User, text = r\<rparr>],
                                     is_complete := True\<rparr>))),
                               (''history'', history_json c3)]\<rparr>, c3))
      else
        (let q = projr (get_next_question k
                   (conversation_history c @ [\<lparr>role = User, text = r\<rparr>]) (initial_symptom c));
             c2 = c\<lparr>conversation_history :=
                     conversation_history c
                     @ [\<lparr>role = User, text = r\<rparr>, \<lparr>role = Agent, text = q\<rparr>]\<rparr>
         in (Inr \<lparr>status = 200,
                  body = JObj [(''interview_id'', JInt (interview_id c)),
                               (''next_question'', JStr q),
                               (''is_complete'', JBool False),
                               (''history'', history_json c2)]\<rparr>, c2)))"
proof -
  from field_textD[OF assms(2)] obtain data v where rq:
    "rq = Inr data" "dict_get data ''user_response'' (JStr []) = Inr v" "strip_method v = Inr r"
    by blast
  obtain q where q: "get_next_question k
      (conversation_history c @ [\<lparr>role = User, text = r\<rparr>]) (initial_symptom c) = Inr q"
    using get_next_question_returns by blast
  obtain rep where rep: "generate_report k jl
      (c\<lparr>conversation_history := conversation_history c @ [\<lparr>role = User, text = r\<rparr>],
         is_complete := True\<rparr>) = Inr rep"
    using generate_report_returns by blast
  show ?thesis
    using assms(1) rq q rep
    by (simp add: continue_interview_try_def Let_def append_turn_def history_json_def)
qed

lemma continue_interview_eq:
  assumes "\<not> is_complete c" and "field_text rq ''user_response'' = Some r" and "r \<noteq> []"
  shows "continue_interview k jl rq c =
     (if 4 \<le> user_turns (conversation_history c) then
        (let c3 = c\<lparr>conversation_history :=
                     conversation_history c
                     @ [\<lparr>role = User, text = r\<rparr>, \<lparr>role = System, text = system_message\<rparr>],
                   is_complete := True\<rparr>
         in (\<lparr>status = 200,
              body = JObj [(''interview_id'', JInt (interview_id c)),
                           (''next_question'', JNull),
                           (''is_complete'', JBool True),
                           (''structured_report'',
                            projr (generate_report k jl
                              (c\<lparr>conversation_history :=
                                   conversation_history c @ [\<lparr>role = User, text = r\<rparr>],
                                 is_complete := True\<rparr>))),
                           (''history'', history_json c3)]\<rparr>, c3))
      else
        (let q = projr (get_next_question k
                   (conversation_history c @ [\<lparr>role = User, text = r\<rparr>]) (initial_symptom c));
             c2 = c\<lparr>conversation_history :=
                     conversation_history c
                     @ [\<lparr>role = User, text = r\<rparr>, \<lparr>role = Agent, text = q\<rparr>]\<rparr>
         in (\<lparr>status = 200,
              body = JObj [(''interview_id'', JInt (interview_id c)),
                           (''next_question'', JStr q),
                           (''is_complete'', JBool False),
                           (''history'', history_json c2)]\<rparr>, c2)))"
  using assms by (simp add: continue_interview_def continue_interview_try_eq Let_def)

lemma continue_step_collecting:
  assumes "\<not> is_complete c" and "field_text rq ''user_response'' = Some r" and "r \<noteq> []"
    and "user_turns (conversation_history c) < 4"
    and "continue_interview k jl rq c = (resp, c')"
  shows "status resp = 200 \<and> \<not> is_complete c'
       \<and> json_field (body resp) ''is_complete'' = Some (JBool False)
       \<and> (\<exists>q. json_field (body resp) ''next_question'' = Some (JStr q))
       \<and> json_field (body resp) ''structured_report'' = None
       \<and> json_field (body resp) ''history'' = Some (history_json c')
       \<and> length (conversation_history c') = length (conversation_history c) + 2
       \<and> user_turns (conversation_history c') = user_turns (conversation_history c) + 1"
  using assms(1,4,5) unfolding continue_interview_eq[OF assms(1-3)]
  by (auto simp: Let_def json_field_def user_turns_def)

lemma continue_step_completing:
  assumes "\<not> is_complete c" and "field_text rq ''user_response'' = Some r" and "r \<noteq> []"
    and "user_turns (conversation_history c) = 4"
    and "continue_interview k jl rq c = (resp, c')"
  shows "status resp = 200 \<and> is_complete c'
       \<and> json_field (body resp) ''is_complete'' = Some (JBool True)
       \<and> json_field (body resp) ''next_question'' = Some JNull
       \<and> (\<exists>report. json_field (body resp) ''structured_report'' = Some report)
       \<and> json_field (body resp) ''history'' = Some (history_json c')
       \<and> length (conversation_history c') = length (conversation_history c) + 2
       \<and> user_turns (conversation_history c') = 5"
  using assms(1,4,5) unfolding continue_interview_eq[OF assms(1-3)]
  by (auto simp: Let_def json_field_def user_turns_def)

text \<open>
  Claim C1. After a successful start and with four continue requests whose
  \<open>user_response\<close>, trimmed, is not empty, whatever the model and the parser do: the start
  leaves two turns, one of them of the User; each of the first three continues answers 200
  with \<open>is_complete\<close> false and adds two turns; the fourth, which brings the User turns to
  five, answers 200 with \<open>is_complete\<close> true, \<open>next_question\<close> null and a
  \<open>structured_report\<close>, and leaves a history of ten turns in a completed state.
\<close>

theorem interview_completes_on_fourth_continue:
  assumes s: "field_text rq0 ''initial_symptom'' = Some s" "s \<noteq> []"
    and r1: "field_text rq1 ''user_response'' = Some r1" "r1 \<noteq> []"
    and r2: "field_text rq2 ''user_response'' = Some r2" "r2 \<noteq> []"
    and r3: "field_text rq3 ''user_response'' = Some r3" "r3 \<noteq> []"
    and r4: "field_text rq4 ''user_response'' = Some r4" "r4 \<noteq> []"
  shows "let (resp0, c1) = start_interview rq0 c0;
             (resp1, c2) = continue_interview k1 jl1 rq1 c1;
             (resp2, c3) = continue_interview k2 jl2 rq2 c2;
             (resp3, c4) = continue_interview k3 jl3 rq3 c3;
             (resp4, c5) = continue_interview k4 jl4 rq4 c4
         in (length (conversation_history c1) = 2 \<and> user_turns (conversation_history c1) = 1
             \<and> \<not> is_complete c1)
          \<and> (status resp1 = 200 \<and> json_field (body resp1) ''is_complete'' = Some (JBool False)
             \<and> \<not> is_complete c2 \<and> length (conversation_history c2) = 4
             \<and> user_turns (conversation_history c2) = 2)
          \<and> (status resp2 = 200 \<and> json_field (body resp2) ''is_complete'' = Some (JBool False)
             \<and> \<not> is_complete c3 \<and> length (conversation_history c3) = 6
             \<and> user_turns (conversation_history c3) = 3)
          \<and> (status resp3 = 200 \<and> json_field (body resp3) ''is_complete'' = Some (JBool False)
             \<and> \<not> is_complete c4 \<and> length (conversation_history c4) = 8
             \<and> user_turns (conversation_history c4) = 4)
          \<and> (status resp4 = 200 \<and> json_field (body resp4) ''is_complete'' = Some (JBool True)
             \<and> json_field (body resp4) ''next_question'' = Some JNull
             \<and> (\<exists>report. json_field (body resp4) ''structured_report'' = Some report)
             \<and> json_field (body resp4) ''history'' = Some (history_json c5)
             \<and> is_complete c5 \<and> length (conversation_history c5) = 10
             \<and> user_turns (conversation_history c5) = 5)"
proof -
  obtain resp0 c1 where start: "start_interview rq0 c0 = (resp0, c1)"
    by (cases "start_interview rq0 c0")
  obtain resp1 c2 where step1: "continue_interview k1 jl1 rq1 c1 = (resp1, c2)"
    by (cases "continue_interview k1 jl1 rq1 c1")
  obtain resp2 c3 where step2: "continue_interview k2 jl2 rq2 c2 = (resp2, c3)"
    by (cases "continue_interview k2 jl2 rq2 c2")
  obtain resp3 c4 where step3: "continue_interview k3 jl3 rq3 c3 = (resp3, c4)"
    by (cases "continue_interview k3 jl3 rq3 c3")
  obtain resp4 c5 where step4: "continue_interview k4 jl4 rq4 c4 = (resp4, c5)"
    by (cases "continue_interview k4 jl4 rq4 c4")
  have c1: "length (conversation_history c1) = 2" "user_turns (conversation_history c1) = 1"
    "\<not> is_complete c1"
    using start s by (auto simp: start_interview_def start_interview_try_eq user_turns_def)
  note a = continue_step_collecting[OF c1(3) r1 _ step1]
  have c2: "status resp1 = 200" "json_field (body resp1) ''is_complete'' = Some (JBool False)"
    "\<not> is_complete c2" "length (conversation_history c2) = 4"
    "user_turns (conversation_history c2) = 2"
    using a c1 by simp_all
  note b = continue_step_collecting[OF c2(3) r2 _ step2]
  have c3: "status resp2 = 200" "json_field (body resp2) ''is_complete'' = Some (JBool False)"
    "\<not> is_complete c3" "length (conversation_history c3) = 6"
    "user_turns (conversation_history c3) = 3"
    using b c2 by simp_all
  note d = continue_step_collecting[OF c3(3) r3 _ step3]
  have c4: "status resp3 = 200" "json_field (body resp3) ''is_complete'' = Some (JBool False)"
    "\<not> is_complete c4" "length (conversation_history c4) = 8"
    "user_turns (conversation_history c4) = 4"
    using d c3 by simp_all
  note e = continue_step_completing[OF c4(3) r4 c4(5) step4]
  show ?thesis
    unfolding Let_def start prod.case step1 step2 step3 step4
    using c1 c2 c3 c4 e by simp
qed

theorem interview_completes_on_fourth_continue_witness:
  "let (resp0, c1) =
         start_interview (Inr (JObj [(''initial_symptom'', JStr ''headache'')])) interview_context;
       (resp1, c2) =
         continue_interview (\<lambda>a p. Inr ''How severe is it?'') (\<lambda>t. Inr JNull)
           (Inr (JObj [(''user_response'', JStr ''started yesterday'')])) c1;
       (resp2, c3) =
         continue_interview (\<lambda>a p. Inl (ExternalError ''timeout'')) (\<lambda>t. Inr JNull)
           (Inr (JObj [(''user_response'', JStr ''throbbing, 7 of 10'')])) c2;
       (resp3, c4) =
         continue_interview (\<lambda>a p. Inr ''Any other symptoms?'') (\<lambda>t. Inr JNull)
           (Inr (JObj [(''user_response'', JStr ''light makes it worse'')])) c3;
       (resp4, c5) =
         continue_interview (\<lambda>a p. Inr ''{}'') (\<lambda>t. Inr (JObj []))
           (Inr (JObj [(''user_response'', JStr ''no fever'')])) c4
   in \<not> is_complete c2 \<and> \<not> is_complete c3 \<and> \<not> is_complete c4 \<and> is_complete c5
      \<and> length (conversation_history c2) = 4 \<and> length (conversation_history c5) = 10
      \<and> json_field (body resp4) ''next_question'' = Some JNull"
  using interview_completes_on_fourth_continue
    [of "Inr (JObj [(''initial_symptom'', JStr ''headache'')])" "''headache''"
        "Inr (JObj [(''user_response'', JStr ''started yesterday'')])" "''started yesterday''"
        "Inr (JObj [(''user_response'', JStr ''throbbing, 7 of 10'')])" "''throbbing, 7 of 10''"
        "Inr (JObj [(''user_response'', JStr ''light makes it worse'')])" "''light makes it worse''"
        "Inr (JObj [(''user_response'', JStr ''no fever'')])" "''no fever''"
        interview_context
        "\<lambda>a p. Inr ''How severe is it?''" "\<lambda>t. Inr JNull"
        "\<lambda>a p. Inl (ExternalError ''timeout'')" "\<lambda>t. Inr JNull"
        "\<lambda>a p. Inr ''Any other symptoms?''" "\<lambda>t. Inr JNull"
        "\<lambda>a p. Inr ''{}''" "\<lambda>t. Inr (JObj [])"]
  by (simp add: field_text_def py_strip_def py_isspace_def Let_def split_beta)

lemma continue_interview_empty:
  assumes "field_text rq ''user_response'' = Some []"
  shows "continue_interview k jl rq c =
     (if is_complete c then
        jsonify_error ''Interview is already complete. Please start a new one.'' 400
      else jsonify_error ''Please provide a response to continue.'' 400, c)"
proof (cases "is_complete c")
  case True
  then show ?thesis by (simp add: continue_interview_def continue_interview_try_def)
next
  case False
  then show ?thesis
    using assms by (simp add: continue_interview_def continue_interview_try_eq)
qed

text \<open>
  Claim C9. A start request whose \<open>initial_symptom\<close> is absent, empty or white space only
  is answered with 400 and leaves the state as it is, and so does a continue request
  whose \<open>user_response\<close> is absent, empty or white space only, in every state.
\<close>

theorem empty_field_rejected:
  "(field_text rq ''initial_symptom'' = Some [] \<longrightarrow>
      start_interview rq c =
        (jsonify_error ''Please provide an initial symptom to start the interview.'' 400, c))
   \<and> (field_text rq ''user_response'' = Some [] \<longrightarrow>
      status (fst (continue_interview k jl rq c)) = 400
      \<and> snd (continue_interview k jl rq c) = c)"
  by (simp add: start_interview_def start_interview_try_eq continue_interview_empty
        jsonify_error_def)

theorem empty_field_rejected_witness:
  "start_interview (Inr (JObj [(''initial_symptom'', JStr ''   '')])) interview_context
     = (jsonify_error ''Please provide an initial symptom to start the interview.'' 400,
        interview_context)
   \<and> status (fst (continue_interview (\<lambda>a p. Inr ''How severe is it?'') (\<lambda>t. Inr JNull)
        (Inr (JObj [(''user_response'', JStr [CHR 0x09, CHR 0x0A])])) interview_context)) = 400
   \<and> snd (continue_interview (\<lambda>a p. Inr ''How severe is it?'') (\<lambda>t. Inr JNull)
        (Inr (JObj [(''user_response'', JStr [CHR 0x09, CHR 0x0A])])) interview_context)
     = interview_context"
  using empty_field_rejected
          [of "Inr (JObj [(''initial_symptom'', JStr ''   '')])" interview_context]
        empty_field_rejected
          [of "Inr (JObj [(''user_response'', JStr [CHR 0x09, CHR 0x0A])])" interview_context
              "\<lambda>a p. Inr ''How severe is it?''" "\<lambda>t. Inr JNull"]
  by (simp add: field_text_def py_strip_def py_isspace_def)

text \<open>
  Claim C5, as the code has it. The program has no state without a session: the initial
  dictionary is an interview that is not complete, with id 1 and an empty history. A
  continue request with a non-empty response before any start is answered with 200: the
  response is appended as the first User turn, the crew is asked about the first topic,
  and its question (or the apology) is appended as an Agent turn.
\<close>

theorem continue_interview_before_start:
  assumes "field_text rq ''user_response'' = Some r" and "r \<noteq> []"
  shows "\<exists>q. ask_interviewer k None (interview_steps ! 0)
                (format_history [\<lparr>role = User, text = r\<rparr>]) = Inr q
          \<and> continue_interview k jl rq interview_context =
              (\<lparr>status = 200,
                body = JObj [(''interview_id'', JInt 1),
                             (''next_question'', JStr q),
                             (''is_complete'', JBool False),
                             (''history'', JArr [turn_json \<lparr>role = User, text = r\<rparr>,
                                turn_json \<lparr>role = Agent, text = q\<rparr>])]\<rparr>,
               \<lparr>interview_id = 1,
                conversation_history = [\<lparr>role = User, text = r\<rparr>, \<lparr>role = Agent, text = q\<rparr>],
                is_complete = False,
                initial_symptom = None\<rparr>)"
proof -
  obtain q where q: "ask_interviewer k None (interview_steps ! 0)
      (format_history [\<lparr>role = User, text = r\<rparr>]) = Inr q"
    using ask_interviewer_returns by blast
  then have "get_next_question k [\<lparr>role = User, text = r\<rparr>] None = Inr q"
    by (simp add: get_next_question_def Let_def user_turns_def length_interview_steps)
  then have "continue_interview k jl rq interview_context =
              (\<lparr>status = 200,
                body = JObj [(''interview_id'', JInt 1),
                             (''next_question'', JStr q),
                             (''is_complete'', JBool False),
                             (''history'', JArr [turn_json \<lparr>role = User, text = r\<rparr>,
                                turn_json \<lparr>role = Agent, text = q\<rparr>])]\<rparr>,
               \<lparr>interview_id = 1,
                conversation_history = [\<lparr>role = User, text = r\<rparr>, \<lparr>role = Agent, text = q\<rparr>],
                is_complete = False,
                initial_symptom = None\<rparr>)"
    using assms
    by (simp add: continue_interview_eq interview_context_def user_turns_def Let_def
          history_json_def)
  with q show ?thesis by blast
qed

theorem continue_interview_before_start_witness:
  "\<exists>q. ask_interviewer (\<lambda>a p. Inr ''Where does it hurt?'') None (interview_steps ! 0)
          (format_history [\<lparr>role = User, text = ''my head hurts''\<rparr>]) = Inr q
     \<and> continue_interview (\<lambda>a p. Inr ''Where does it hurt?'') (\<lambda>t. Inr JNull)
          (Inr (JObj [(''user_response'', JStr ''my head hurts '')])) interview_context =
         (\<lparr>status = 200,
           body = JObj [(''interview_id'', JInt 1),
                        (''next_question'', JStr q),
                        (''is_complete'', JBool False),
                        (''history'', JArr [turn_json \<lparr>role = User, text = ''my head hurts''\<rparr>,
                           turn_json \<lparr>role = Agent, text = q\<rparr>])]\<rparr>,
          \<lparr>interview_id = 1,
           conversation_history =
             [\<lparr>role = User, text = ''my head hurts''\<rparr>, \<lparr>role = Agent, text = q\<rparr>],
           is_complete = False,
           initial_symptom = None\<rparr>)"
  using continue_interview_before_start
          [of "Inr (JObj [(''user_response'', JStr ''my head hurts '')])" "''my head hurts''"
              "\<lambda>a p. Inr ''Where does it hurt?''" "\<lambda>t. Inr JNull"]
  by (simp add: field_text_def py_strip_def py_isspace_def)

text \<open>
  Against claim C5 as stated: a continue request on the initial state succeeds.
\<close>

theorem continue_before_start_succeeds:
  "continue_interview (\<lambda>a p. Inr ''Where does it hurt?'') (\<lambda>t. Inl (ExternalError ''no JSON''))
     (Inr (JObj [(''user_response'', JStr ''my head hurts'')])) interview_context
   = (\<lparr>status = 200,
       body = JObj [(''interview_id'', JInt 1),
                    (''next_question'', JStr ''Where does it hurt?''),
                    (''is_complete'', JBool False),
                    (''history'',
                     JArr [JObj [(''role'', JStr ''User''), (''text'', JStr ''my head hurts'')],
                           JObj [(''role'', JStr ''Agent''),
                                 (''text'', JStr ''Where does it hurt?'')]])]\<rparr>,
      \<lparr>interview_id = 1,
       conversation_history =
         [\<lparr>role = User, text = ''my head hurts''\<rparr>,
          \<lparr>role = Agent, text = ''Where does it hurt?''\<rparr>],
       is_complete = False,
       initial_symptom = None\<rparr>)"
  by (simp add: continue_interview_def continue_interview_try_def interview_context_def
        py_strip_def py_isspace_def append_turn_def user_turns_def get_next_question_def
        ask_interviewer_def interview_steps_def history_json_def turn_json_def Let_def)

subsection \<open>Interview ids\<close>

lemma start_interview_cases:
  assumes "start_interview rq c = (resp, c')"
  shows "(status resp = 200 \<and> interview_id c' = interview_id c + 1
          \<and> json_field (body resp) ''interview_id'' = Some (JInt (interview_id c + 1)))
       \<or> (status resp \<noteq> 200 \<and> c' = c)"
  using assms
  by (auto simp: start_interview_def start_interview_try_def Let_def jsonify_error_def
        json_field_def append_turn_def split: sum.splits if_splits)

lemma continue_interview_try_id:
  "interview_id (snd (continue_interview_try k jl rq c)) = interview_id c"
  by (simp add: continue_interview_try_def Let_def append_turn_def split: sum.splits)

lemma continue_interview_id:
  "interview_id (snd (continue_interview k jl rq c)) = interview_id c"
  using continue_interview_try_id[of k jl rq c]
  by (cases "continue_interview_try k jl rq c")
     (auto simp: continue_interview_def split: sum.splits)

lemma get_report_state: "snd (get_report k jl c) = c"
  by (simp add: get_report_def split: sum.splits)

lemma handle_id:
  assumes "handle rq c = (out, c1)"
  shows "interview_id c1 = interview_id c + (if started (rq, out) then 1 else 0)"
proof (cases rq)
  case (StartInterview rj)
  obtain resp c' where s: "start_interview rj c = (resp, c')"
    by (cases "start_interview rj c")
  with assms StartInterview have "out = Inr resp" "c1 = c'" by auto
  with start_interview_cases[OF s] StartInterview show ?thesis by auto
next
  case (ContinueInterview k jl rj)
  with assms continue_interview_id[of k jl rj c] show ?thesis
    by (auto simp: split_beta)
next
  case (GetReport k jl)
  with assms get_report_state[of k jl c] show ?thesis by auto
qed

lemma handle_started:
  assumes "handle rq c = (out, c1)" and "started (rq, out)"
  shows "\<exists>resp. out = Inr resp
           \<and> json_field (body resp) ''interview_id'' = Some (JInt (interview_id c + 1))"
proof (cases rq)
  case (StartInterview rj)
  obtain resp c' where s: "start_interview rj c = (resp, c')"
    by (cases "start_interview rj c")
  with assms StartInterview have "out = Inr resp" "status resp = 200" by auto
  with start_interview_cases[OF s] show ?thesis by auto
next
  case (ContinueInterview k jl rj)
  with assms show ?thesis by simp
next
  case (GetReport k jl)
  with assms show ?thesis by simp
qed

lemma serve_started_id:
  assumes "serve rqs c = (outs, c')" and "i < length rqs" and "started (rqs ! i, outs ! i)"
  shows "\<exists>resp. outs ! i = Inr resp
           \<and> json_field (body resp) ''interview_id''
               = Some (JInt (interview_id c + 1
                    + int (length (filter started (zip (take i rqs) (take i outs))))))"
  using assms
proof (induction rqs arbitrary: c outs i c')
  case Nil
  then show ?case by simp
next
  case (Cons rq rqs)
  obtain out c1 where h: "handle rq c = (out, c1)" by (cases "handle rq c")
  obtain outs1 c2 where s: "serve rqs c1 = (outs1, c2)" by (cases "serve rqs c1")
  from Cons.prems(1) h s have outs: "outs = out # outs1" by simp
  show ?case
  proof (cases i)
    case 0
    with Cons.prems(3) outs have "started (rq, out)" by simp
    from handle_started[OF h this] 0 outs show ?thesis by simp
  next
    case (Suc j)
    with Cons.prems outs have j: "j < length rqs" "started (rqs ! j, outs1 ! j)" by simp_all
    from Cons.IH[OF s j] obtain resp where
      "outs1 ! j = Inr resp"
      "json_field (body resp) ''interview_id''
         = Some (JInt (interview_id c1 + 1
              + int (length (filter started (zip (take j rqs) (take j outs1))))))"
      by blast
    with handle_id[OF h] Suc outs show ?thesis by simp
  qed
qed

text \<open>
  Claim C10, as the code has it. The initial dictionary carries id 1, and in every sequence
  of requests served from it, a successful start that comes after \<open>m\<close> successful starts
  returns the id \<open>m + 2\<close>: the \<open>k\<close>-th successful start returns \<open>k + 1\<close>, and no start
  returns 1.
\<close>

theorem start_ids_from_fresh_process:
  assumes "serve rqs interview_context = (outs, c)" and "i < length rqs"
    and "started (rqs ! i, outs ! i)"
  shows "interview_id interview_context = 1
       \<and> (\<exists>resp. outs ! i = Inr resp
             \<and> json_field (body resp) ''interview_id''
                 = Some (JInt (int (length (filter started (zip (take i rqs) (take i outs)))) + 2)))"
proof -
  have "interview_id interview_context = 1" by (simp add: interview_context_def)
  with serve_started_id[OF assms] show ?thesis by (simp add: add.commute)
qed

theorem start_ids_from_fresh_process_witness:
  "\<exists>resp. fst (serve
        [ContinueInterview (\<lambda>a p. Inr ''Since when?'') (\<lambda>t. Inr JNull)
           (Inl (ExternalError ''400 Bad Request'')),
         StartInterview (Inr (JObj [(''initial_symptom'', JStr ''cough'')])),
         StartInterview (Inr (JObj [])),
         StartInterview (Inr (JObj [(''initial_symptom'', JStr ''fever'')]))]
        interview_context) ! 3 = Inr resp
     \<and> json_field (body resp) ''interview_id'' = Some (JInt 3)"
  using start_ids_from_fresh_process
    [of "[ContinueInterview (\<lambda>a p. Inr ''Since when?'') (\<lambda>t. Inr JNull)
           (Inl (ExternalError ''400 Bad Request'')),
         StartInterview (Inr (JObj [(''initial_symptom'', JStr ''cough'')])),
         StartInterview (Inr (JObj [])),
         StartInterview (Inr (JObj [(''initial_symptom'', JStr ''fever'')]))]"
        "fst (serve
        [ContinueInterview (\<lambda>a p. Inr ''Since when?'') (\<lambda>t. Inr JNull)
           (Inl (ExternalError ''400 Bad Request'')),
         StartInterview (Inr (JObj [(''initial_symptom'', JStr ''cough'')])),
         StartInterview (Inr (JObj [])),
         StartInterview (Inr (JObj [(''initial_symptom'', JStr ''fever'')]))]
        interview_context)"
        "snd (serve
        [ContinueInterview (\<lambda>a p. Inr ''Since when?'') (\<lambda>t. Inr JNull)
           (Inl (ExternalError ''400 Bad Request'')),
         StartInterview (Inr (JObj [(''initial_symptom'', JStr ''cough'')])),
         StartInterview (Inr (JObj [])),
         StartInterview (Inr (JObj [(''initial_symptom'', JStr ''fever'')]))]
        interview_context)" 3]
  by (simp add: interview_context_def start_interview_def
        start_interview_try_def continue_interview_def continue_interview_try_def
        py_strip_def py_isspace_def append_turn_def history_json_def Let_def
        jsonify_error_def json_field_def)

text \<open>
  Against claim C10 as stated: a continue request before any start returns the id 1.
\<close>

theorem continue_before_start_returns_id_1:
  "json_field
     (body (fst (continue_interview (\<lambda>a p. Inr ''Since when?'') (\<lambda>t. Inr JNull)
        (Inr (JObj [(''user_response'', JStr ''cough'')])) interview_context)))
     ''interview_id'' = Some (JInt 1)"
  by (simp add: continue_interview_def continue_interview_try_def interview_context_def
        py_strip_def py_isspace_def append_turn_def user_turns_def get_next_question_def
        ask_interviewer_def interview_steps_def history_json_def turn_json_def Let_def
        json_field_def)

end
